theory Spec2Isabelle
  imports Main "HOL-Library.Sublist" "HOL-Library.Multiset"
begin

section \<open>Data model (src/types.ts)\<close>

text \<open>
  The three interfaces of \<^verbatim>\<open>types.ts\<close>. An optional field \<^verbatim>\<open>f?: T\<close> is a field of
  type \<open>T option\<close>. Field names are the source's; \<^verbatim>\<open>id\<close>, \<^verbatim>\<open>text\<close> and \<^verbatim>\<open>type\<close> carry a
  suffix naming their record, since the plain words are taken in Isabelle. A
  \<^verbatim>\<open>number\<close> holding a \<^verbatim>\<open>Date.now()\<close> reading is an \<open>int\<close> (milliseconds).
\<close>

record user =
  id_u :: string
  username :: string
  name :: string
  avatar :: string
  about :: "string option"
  isOnline :: bool
  lastSeen :: "string option"

datatype msg_status = Sending | Sent | Delivered | Read

record message =
  id_m :: "string option"
  conversationId :: string
  senderId :: string
  text_m :: string
  timestamp :: int
  status :: msg_status
  isSystem :: "bool option"

datatype conv_type = Private | Group

record conversation =
  id_c :: string
  participantIds :: "string list"
  participants :: "user list"
  messages :: "message list option"
  lastMessage :: "message option"
  unreadCount :: nat
  isTyping :: "bool option"
  themeColor :: "string option"
  personaPrompt :: "string option"
  type_c :: conv_type

section \<open>JavaScript built-ins used by the code\<close>

text \<open>
  \<^verbatim>\<open>String.prototype.toLowerCase\<close> on the ASCII letters (a \<open>char\<close> is a byte; every
  other byte is left as it is), \<^verbatim>\<open>String.prototype.includes\<close> as a substring test and
  \<^verbatim>\<open>Array.prototype.find\<close> (the library function \<^const>\<open>find\<close>).
\<close>

definition lowerChar :: "char \<Rightarrow> char" where
  "lowerChar c =
     (case map_of (zip ''ABCDEFGHIJKLMNOPQRSTUVWXYZ'' ''abcdefghijklmnopqrstuvwxyz'') c of
        Some l \<Rightarrow> l
      | None \<Rightarrow> c)"

definition toLowerCase :: "string \<Rightarrow> string" where
  "toLowerCase s = map lowerChar s"

fun includes_str :: "string \<Rightarrow> string \<Rightarrow> bool" where
  "includes_str [] sub = (sub = [])"
| "includes_str (c # cs) sub = (prefix sub (c # cs) \<or> includes_str cs sub)"

text \<open>
  \<^verbatim>\<open>Array.prototype.sort(cmp)\<close>: the engine's sort is stable, and \<^verbatim>\<open>cmp(a, b) <= 0\<close>
  keeps \<^verbatim>\<open>a\<close> before \<^verbatim>\<open>b\<close>. It is modelled as the stable insertion sort under the
  comparator; the elements are inserted from the right, so that an element goes in
  front of the elements it compares equal to, which stood after it.
\<close>

fun sortInsert :: "('a \<Rightarrow> 'a \<Rightarrow> int) \<Rightarrow> 'a \<Rightarrow> 'a list \<Rightarrow> 'a list" where
  "sortInsert cmp a [] = [a]"
| "sortInsert cmp a (b # bs) =
     (if cmp a b \<le> 0 then a # b # bs else b # sortInsert cmp a bs)"

definition arraySort :: "('a \<Rightarrow> 'a \<Rightarrow> int) \<Rightarrow> 'a list \<Rightarrow> 'a list" where
  "arraySort cmp xs = foldr (sortInsert cmp) xs []"

section \<open>Sidebar: the displayed order (src/components/Sidebar.tsx)\<close>

text \<open>
  \<^verbatim>\<open>a.lastMessage?.timestamp || 0\<close>: a missing last message gives \<^verbatim>\<open>undefined\<close>, which
  \<^verbatim>\<open>|| 0\<close> turns into 0, as it does the timestamp 0 itself.
\<close>

definition lastTimestamp :: "conversation \<Rightarrow> int" where
  "lastTimestamp a =
     (case lastMessage a of
        None \<Rightarrow> 0
      | Some m \<Rightarrow> (if timestamp m = 0 then 0 else timestamp m))"

definition compareConversations :: "conversation \<Rightarrow> conversation \<Rightarrow> int" where
  "compareConversations a b =
     (let tA = lastTimestamp a; tB = lastTimestamp b in tB - tA)"

definition sortedConversations :: "conversation list \<Rightarrow> conversation list" where
  "sortedConversations conversations = arraySort compareConversations conversations"

section \<open>The environment of the client\<close>

text \<open>
  The code runs against three remote collaborators (the credential store, the document
  store and the generative reply service) and the browser (clock, console, alert
  boxes). They are not code of this repository; the \<open>world\<close> below holds their state
  and their behaviour as far as the code observes it:
  \<^item> \<open>clockAt w k\<close> is the value of the \<open>k\<close>-th \<^verbatim>\<open>Date.now()\<close>, \<open>reads\<close> counts the readings
    made so far; nothing is assumed about the readings;
  \<^item> \<open>faultAt w k\<close> says whether the \<open>k\<close>-th remote request fails, and with which
    \<open>(code, message)\<close>; \<open>requests\<close> counts the requests made so far;
  \<^item> \<open>autoIdAt w k\<close> is the \<open>k\<close>-th identifier the remote side generates;
  \<^item> \<open>replyService\<close> is the answer of the generative service to a request, and
    \<open>replyCalls\<close> records the requests \<^verbatim>\<open>generateReply\<close> was called with;
  \<^item> \<open>console\<close> and \<open>alerts\<close> record \<^verbatim>\<open>console.error\<close>/\<^verbatim>\<open>console.warn\<close> and \<^verbatim>\<open>alert\<close>.
\<close>

datatype auth_code = EmailAlreadyInUse | WeakPassword | NetworkRequestFailed

datatype js_error =
    AuthError auth_code
  | FirestoreError string string
  | PlainError string

record account =
  uid :: string
  email :: string
  password :: string
  displayName :: "string option"
  photoURL :: "string option"

text \<open>A document of the \<^verbatim>\<open>conversations\<close> collection, with the fields the code writes and reads.\<close>

record conv_doc =
  participantIds_d :: "string list"
  participants_d :: "user list"
  type_d :: "conv_type option"
  createdAt :: int
  lastMessageTimestamp :: int
  lastMessage_d :: "message option"
  personaPrompt_d :: "string option"

datatype role = UserRole | ModelRole

text \<open>
  A request to the generative service: \<open>persona\<close> is the persona description that
  \<^verbatim>\<open>generateReply\<close> interpolates into its fixed system instruction.
\<close>

record gen_request =
  persona :: string
  history :: "(role \<times> string) list"
  prompt :: string

text \<open>
  \<open>GenText t\<close>: the call returns with \<^verbatim>\<open>result.text = t\<close>; \<open>GenNoText\<close>: it returns and
  \<^verbatim>\<open>result.text\<close> is undefined; \<open>GenFail\<close>: it throws.
\<close>

datatype gen_outcome = GenText string | GenNoText | GenFail

datatype query = ConversationsOf string | MessagesOf string

record world =
  clockAt :: "nat \<Rightarrow> int"
  reads :: nat
  serverTime :: int
  isoFormat :: "int \<Rightarrow> string"
  faultAt :: "nat \<Rightarrow> (string \<times> string) option"
  requests :: nat
  autoIdAt :: "nat \<Rightarrow> string"
  idCounter :: nat
  replyService :: "gen_request \<Rightarrow> gen_outcome"
  replyCalls :: "gen_request list"
  authAccounts :: "(string \<times> account) list"
  usersCol :: "(string \<times> user) list"
  conversationsCol :: "(string \<times> conv_doc) list"
  messagesCol :: "string \<Rightarrow> (string \<times> message) list"
  listeners :: "query list"
  console :: "string list"
  alerts :: "string list"

definition Date_now :: "world \<Rightarrow> int \<times> world" where
  "Date_now w = (clockAt w (reads w), w\<lparr>reads := Suc (reads w)\<rparr>)"

definition console_error :: "string \<Rightarrow> world \<Rightarrow> world" where
  "console_error line w = w\<lparr>console := console w @ [line]\<rparr>"

definition alert :: "string \<Rightarrow> world \<Rightarrow> world" where
  "alert line w = w\<lparr>alerts := alerts w @ [line]\<rparr>"

definition request :: "world \<Rightarrow> (string \<times> string) option \<times> world" where
  "request w = (faultAt w (requests w), w\<lparr>requests := Suc (requests w)\<rparr>)"

definition autoId :: "world \<Rightarrow> string \<times> world" where
  "autoId w = (autoIdAt w (idCounter w), w\<lparr>idCounter := Suc (idCounter w)\<rparr>)"

section \<open>The document store and the credential store\<close>

text \<open>
  Modelled from the spec: the Firestore and Firebase Auth client calls the code makes
  (section 6, Document/Event Store and Identity/Credential Store). A collection is the
  list of its \<open>(id, data)\<close> documents. Every call is one remote request and fails when
  the request does; \<^verbatim>\<open>updateDoc\<close> also fails with \<^verbatim>\<open>not-found\<close> on a document that does not
  exist, \<^verbatim>\<open>setDoc\<close> creates or replaces, \<^verbatim>\<open>addDoc\<close> stores under a generated id, and a
  query with \<^verbatim>\<open>limit(n)\<close> returns the first \<open>n\<close> documents at most. Registration fails
  with \<^verbatim>\<open>auth/email-already-in-use\<close> for an e-mail that has an account and with
  \<^verbatim>\<open>auth/weak-password\<close> for a password shorter than six characters.
\<close>

definition addDoc_messages :: "string \<Rightarrow> message \<Rightarrow> world \<Rightarrow> (js_error + string) \<times> world" where
  "addDoc_messages cid data w =
     (case request w of
        (Some (c, m), w1) \<Rightarrow> (Inl (FirestoreError c m), w1)
      | (None, w1) \<Rightarrow>
          (case autoId w1 of
             (i, w2) \<Rightarrow>
               (Inr i, w2\<lparr>messagesCol := (messagesCol w2)(cid := messagesCol w2 cid @ [(i, data)])\<rparr>)))"

definition addDoc_conversations :: "conv_doc \<Rightarrow> world \<Rightarrow> (js_error + string) \<times> world" where
  "addDoc_conversations data w =
     (case request w of
        (Some (c, m), w1) \<Rightarrow> (Inl (FirestoreError c m), w1)
      | (None, w1) \<Rightarrow>
          (case autoId w1 of
             (i, w2) \<Rightarrow> (Inr i, w2\<lparr>conversationsCol := conversationsCol w2 @ [(i, data)]\<rparr>)))"

definition updateEntry :: "'k \<Rightarrow> ('v \<Rightarrow> 'v) \<Rightarrow> ('k \<times> 'v) list \<Rightarrow> ('k \<times> 'v) list" where
  "updateEntry k f col = map (\<lambda>(k', v). if k' = k then (k', f v) else (k', v)) col"

definition updateDoc_conversations ::
  "string \<Rightarrow> (conv_doc \<Rightarrow> conv_doc) \<Rightarrow> world \<Rightarrow> (js_error + unit) \<times> world" where
  "updateDoc_conversations cid f w =
     (case request w of
        (Some (c, m), w1) \<Rightarrow> (Inl (FirestoreError c m), w1)
      | (None, w1) \<Rightarrow>
          (case map_of (conversationsCol w1) cid of
             None \<Rightarrow> (Inl (FirestoreError ''not-found'' ''No document to update''), w1)
           | Some d \<Rightarrow>
               (Inr (), w1\<lparr>conversationsCol := updateEntry cid f (conversationsCol w1)\<rparr>)))"

definition setDoc_users :: "string \<Rightarrow> user \<Rightarrow> world \<Rightarrow> (js_error + unit) \<times> world" where
  "setDoc_users k data w =
     (case request w of
        (Some (c, m), w1) \<Rightarrow> (Inl (FirestoreError c m), w1)
      | (None, w1) \<Rightarrow>
          (Inr (),
           w1\<lparr>usersCol :=
                 (if k \<in> fst ` set (usersCol w1) then updateEntry k (\<lambda>_. data) (usersCol w1)
                  else usersCol w1 @ [(k, data)])\<rparr>))"

definition getDocs_users :: "nat \<Rightarrow> world \<Rightarrow> (js_error + (string \<times> user) list) \<times> world" where
  "getDocs_users n w =
     (case request w of
        (Some (c, m), w1) \<Rightarrow> (Inl (FirestoreError c m), w1)
      | (None, w1) \<Rightarrow> (Inr (take n (usersCol w1)), w1))"

definition createUserWithEmailAndPassword ::
  "string \<Rightarrow> string \<Rightarrow> world \<Rightarrow> (js_error + account) \<times> world" where
  "createUserWithEmailAndPassword em pw w =
     (case request w of
        (Some f, w1) \<Rightarrow> (Inl (AuthError NetworkRequestFailed), w1)
      | (None, w1) \<Rightarrow>
          if em \<in> fst ` set (authAccounts w1) then (Inl (AuthError EmailAlreadyInUse), w1)
          else if length pw < 6 then (Inl (AuthError WeakPassword), w1)
          else
            (case autoId w1 of
               (i, w2) \<Rightarrow>
                 (let acct = \<lparr>uid = i, email = em, password = pw,
                              displayName = None, photoURL = None\<rparr>
                  in (Inr acct, w2\<lparr>authAccounts := authAccounts w2 @ [(em, acct)]\<rparr>))))"

definition updateProfile ::
  "account \<Rightarrow> string \<Rightarrow> string \<Rightarrow> world \<Rightarrow> (js_error + unit) \<times> world" where
  "updateProfile acct dn url w =
     (case request w of
        (Some f, w1) \<Rightarrow> (Inl (AuthError NetworkRequestFailed), w1)
      | (None, w1) \<Rightarrow>
          (Inr (),
           w1\<lparr>authAccounts :=
                 updateEntry (email acct)
                   (\<lambda>a. a\<lparr>displayName := Some dn, photoURL := Some url\<rparr>) (authAccounts w1)\<rparr>))"

section \<open>The service layer (src/services/firebaseService.ts)\<close>

definition FAKE_DOMAIN :: string where
  "FAKE_DOMAIN = ''@patr.app''"

definition getEmail :: "string \<Rightarrow> string" where
  "getEmail un = toLowerCase un @ FAKE_DOMAIN"

text \<open>
  \<^verbatim>\<open>mapUser\<close> builds \<^verbatim>\<open>{ id: doc.id, ...doc.data() }\<close>: the spread comes second, so the \<^verbatim>\<open>id\<close>
  field of the stored data, which a \<^verbatim>\<open>User\<close> always has, is the one that stays.
\<close>

definition mapUser :: "string \<times> user \<Rightarrow> user" where
  "mapUser d = (case d of (docId, data) \<Rightarrow> data)"

definition signupWithUsername ::
  "string \<Rightarrow> string \<Rightarrow> string \<Rightarrow> world \<Rightarrow> (js_error + user) \<times> world" where
  "signupWithUsername un pw nm w =
     (let em = getEmail un in
      case createUserWithEmailAndPassword em pw w of
        (Inl e, w1) \<Rightarrow> (Inl e, w1)
      | (Inr firebaseUser, w1) \<Rightarrow>
          (let avatarUrl = ''https://api.dicebear.com/7.x/avataaars/svg?seed='' @ un in
           case updateProfile firebaseUser nm avatarUrl w1 of
             (Inl e, w2) \<Rightarrow> (Inl e, w2)
           | (Inr _, w2) \<Rightarrow>
               (case Date_now w2 of
                  (t, w3) \<Rightarrow>
                    (let newUser =
                           \<lparr>id_u = uid firebaseUser, username = un, name = nm,
                            avatar = avatarUrl,
                            about = Some ''Hey there! I'm using Patr.'',
                            isOnline = True, lastSeen = Some (isoFormat w3 t)\<rparr>
                     in case setDoc_users (uid firebaseUser) newUser w3 of
                          (Inl e, w4) \<Rightarrow>
                            (let w5 = console_error ''Failed to create user profile in DB:'' w4
                             in case e of
                                  FirestoreError c m \<Rightarrow>
                                    if c = ''not-found'' \<or> includes_str m ''not exist''
                                    then (Inl (PlainError
                                      ''Firestore Database not found. Please create it in the Firebase Console.''), w5)
                                    else (Inl e, w5)
                                | _ \<Rightarrow> (Inl e, w5))
                        | (Inr _, w4) \<Rightarrow> (Inr newUser, w4)))))"





definition toConversation :: "string \<times> conv_doc \<Rightarrow> conversation" where
  "toConversation docSnap =
     (case docSnap of
        (docId, data) \<Rightarrow>
          \<lparr>id_c = docId,
           participantIds = participantIds_d data,
           participants = participants_d data,
           messages = None,
           lastMessage = lastMessage_d data,
           unreadCount = 0,
           isTyping = None,
           themeColor = None,
           personaPrompt = personaPrompt_d data,
           type_c = (case type_d data of Some ty \<Rightarrow> ty | None \<Rightarrow> Private)\<rparr>)"




definition getAllUsers :: "world \<Rightarrow> user list \<times> world" where
  "getAllUsers w =
     (case getDocs_users 50 w of
        (Inr docs, w1) \<Rightarrow> (map mapUser docs, w1)
      | (Inl e, w1) \<Rightarrow> ([], console_error ''Error fetching users:'' w1))"

text \<open>
  \<^verbatim>\<open>createdAt: serverTimestamp()\<close> is filled in by the store with its own time;
  \<^verbatim>\<open>lastMessageTimestamp: Date.now()\<close> is read from the client's clock when the data
  object is built.
\<close>

definition createNewConversation ::
  "user \<Rightarrow> user \<Rightarrow> world \<Rightarrow> (js_error + string) \<times> world" where
  "createNewConversation currentUser targetUser w =
     (case Date_now w of
        (t, w1) \<Rightarrow>
          (let conversationData =
                 \<lparr>participantIds_d = [id_u currentUser, id_u targetUser],
                  participants_d = [currentUser, targetUser],
                  type_d = Some Private,
                  createdAt = serverTime w1,
                  lastMessageTimestamp = t,
                  lastMessage_d = None,
                  personaPrompt_d = None\<rparr>
           in addDoc_conversations conversationData w1))"

definition sendMessageToConversation ::
  "string \<Rightarrow> message \<Rightarrow> world \<Rightarrow> (js_error + unit) \<times> world" where
  "sendMessageToConversation cid msg w =
     (case Date_now w of
        (t1, w1) \<Rightarrow>
          (case addDoc_messages cid (msg\<lparr>timestamp := t1\<rparr>) w1 of
             (Inl e, w2) \<Rightarrow> (Inl e, w2)
           | (Inr _, w2) \<Rightarrow>
               (case Date_now w2 of
                  (t2, w3) \<Rightarrow>
                    updateDoc_conversations cid
                      (\<lambda>d. d\<lparr>lastMessage_d := Some msg, lastMessageTimestamp := t2\<rparr>) w3)))"

section \<open>The reply service client (src/unnamed/part_000, imported as geminiService)\<close>

definition formatHistory :: "message list \<Rightarrow> string \<Rightarrow> (role \<times> string) list" where
  "formatHistory msgs currentUserId =
     map (\<lambda>msg. (if senderId msg = currentUserId then UserRole else ModelRole, text_m msg)) msgs"

text \<open>
  The whole body is inside \<^verbatim>\<open>try\<close>: whatever the service call throws is logged and
  answered with the fixed apology, so the function itself never throws.
  \<^verbatim>\<open>result.text || ""\<close> turns a missing text into the empty string.
\<close>

definition generateReply ::
  "string \<Rightarrow> message list \<Rightarrow> string \<Rightarrow> string \<Rightarrow> string \<Rightarrow> world \<Rightarrow> string \<times> world" where
  "generateReply cid hist lastUserMessage personaPrompt' currentUserId w =
     (let req = \<lparr>persona = personaPrompt',
                 history = formatHistory hist currentUserId,
                 prompt = lastUserMessage\<rparr>;
          w1 = w\<lparr>replyCalls := replyCalls w @ [req]\<rparr>
      in case replyService w1 req of
           GenText t \<Rightarrow> (t, w1)
         | GenNoText \<Rightarrow> ([], w1)
         | GenFail \<Rightarrow>
             (''Sorry, I can't reply right now. (Network Error)'',
              console_error ''Gemini API Error:'' w1))"

section \<open>Sending a message (src/App.tsx, handleSendMessage)\<close>

text \<open>
  The handler is a closure over \<^verbatim>\<open>activeConvId\<close>, \<^verbatim>\<open>currentUser\<close> and \<^verbatim>\<open>conversations\<close> as
  they were when it was created; they are its first three arguments. It returns
  nothing: a failed send shows as \<^verbatim>\<open>alert\<close>. \<open>isAI\<close> is the truthiness of the source's
  \<^verbatim>\<open>||\<close> chain, where an absent other user makes both handle tests undefined and a
  persona prompt counts when it is a non-empty string. \<open>autoReply\<close> is the part of the
  handler under the comment \<^verbatim>\<open>AI Logic Integration\<close>. The conversations are values of
  the \<^verbatim>\<open>Conversation\<close> type: \<^verbatim>\<open>participants\<close> is a list and every user has a
  \<^verbatim>\<open>username\<close>, so the two lookups and the handle tests do not throw.
\<close>

definition isAI :: "conversation \<Rightarrow> user option \<Rightarrow> bool" where
  "isAI conv otherUser =
     ((case otherUser of
         None \<Rightarrow> False
       | Some p \<Rightarrow> includes_str (toLowerCase (username p)) ''gemini'')
      \<or> (case otherUser of
            None \<Rightarrow> False
          | Some p \<Rightarrow> includes_str (toLowerCase (username p)) ''bot'')
      \<or> (case personaPrompt conv of None \<Rightarrow> False | Some pp \<Rightarrow> pp \<noteq> []))"

definition defaultPersona :: "user option \<Rightarrow> string" where
  "defaultPersona otherUser =
     ''You are '' @ (case otherUser of Some p \<Rightarrow> name p | None \<Rightarrow> ''undefined'')
       @ '', a cool person on this chat app.''"

definition autoReply :: "string \<Rightarrow> user \<Rightarrow> conversation list \<Rightarrow> string \<Rightarrow> world \<Rightarrow> world" where
  "autoReply activeConvId currentUser conversations txt w =
     (case find (\<lambda>c. id_c c = activeConvId) conversations of
        None \<Rightarrow> w
      | Some conv \<Rightarrow>
          (let otherUser = find (\<lambda>p. id_u p \<noteq> id_u currentUser) (participants conv) in
           if isAI conv otherUser then
             (case generateReply activeConvId [] txt
                     (case personaPrompt conv of
                        Some pp \<Rightarrow> if pp \<noteq> [] then pp else defaultPersona otherUser
                      | None \<Rightarrow> defaultPersona otherUser)
                     (id_u currentUser) w of
                (replyText, w1) \<Rightarrow>
                  (case Date_now w1 of
                     (t, w2) \<Rightarrow>
                       (let replyMessage =
                              \<lparr>id_m = None,
                               conversationId = activeConvId,
                               senderId = (case otherUser of
                                             Some p \<Rightarrow> if id_u p \<noteq> [] then id_u p else ''bot''
                                           | None \<Rightarrow> ''bot''),
                               text_m = replyText,
                               timestamp = t,
                               status = Delivered,
                               isSystem = None\<rparr>
                        in case sendMessageToConversation activeConvId replyMessage w2 of
                             (Inr _, w3) \<Rightarrow> w3
                           | (Inl e, w3) \<Rightarrow> console_error ''AI Error'' w3)))
           else w))"

text \<open>
  \<open>sendUserMessage\<close> is the first part of the handler: it builds \<^verbatim>\<open>newMessage\<close>, with the
  handler's own \<^verbatim>\<open>Date.now()\<close>, and awaits \<^verbatim>\<open>sendMessageToConversation\<close>.
\<close>

definition sendUserMessage :: "string \<Rightarrow> user \<Rightarrow> string \<Rightarrow> world \<Rightarrow> (js_error + unit) \<times> world" where
  "sendUserMessage cid me txt w =
     (case Date_now w of
        (t, w1) \<Rightarrow>
          (let newMessage =
                 \<lparr>id_m = None,
                  conversationId = cid,
                  senderId = id_u me,
                  text_m = txt,
                  timestamp = t,
                  status = Sent,
                  isSystem = None\<rparr>
           in sendMessageToConversation cid newMessage w1))"

definition handleSendMessage ::
  "string option \<Rightarrow> user option \<Rightarrow> conversation list \<Rightarrow> string \<Rightarrow> world \<Rightarrow> world" where
  "handleSendMessage activeConvId currentUser conversations txt w =
     (case activeConvId of
        None \<Rightarrow> w
      | Some cid \<Rightarrow>
          if cid = [] then w
          else
            (case currentUser of
               None \<Rightarrow> w
             | Some me \<Rightarrow>
                 (case sendUserMessage cid me txt w of
                    (Inr _, w2) \<Rightarrow> autoReply cid me conversations txt w2
                  | (Inl e, w2) \<Rightarrow>
                      alert ''Failed to send message. You might be offline.''
                        (console_error ''Send message error'' w2))))"

section \<open>Example data\<close>

definition mkUser :: "string \<Rightarrow> string \<Rightarrow> string \<Rightarrow> user" where
  "mkUser i un nm =
     \<lparr>id_u = i, username = un, name = nm, avatar = [], about = None,
      isOnline = True, lastSeen = None\<rparr>"

definition alice :: user where
  "alice = mkUser ''u1'' ''alice'' ''Alice''"

definition geminibot :: user where
  "geminibot = mkUser ''b1'' ''GeminiBot'' ''Gem''"

definition carol :: user where
  "carol = mkUser ''u2'' ''carol'' ''Carol''"

definition mkDoc :: "user \<Rightarrow> user \<Rightarrow> string option \<Rightarrow> conv_doc" where
  "mkDoc a b pp =
     \<lparr>participantIds_d = [id_u a, id_u b], participants_d = [a, b], type_d = Some Private,
      createdAt = 1, lastMessageTimestamp = 2, lastMessage_d = None, personaPrompt_d = pp\<rparr>"

text \<open>
  A world with three conversations of \<open>alice\<close>: \<open>c1\<close> with a bot by its handle, \<open>c2\<close> with
  a person, \<open>c3\<close> with a person under a persona prompt. No request fails, the clock
  reads 100, 200, 300, ..., and the reply service answers \<open>hey\<close>.
\<close>

definition calm :: world where
  "calm =
     \<lparr>clockAt = (\<lambda>k. 100 * (1 + int k)), reads = 0, serverTime = 7,
      isoFormat = (\<lambda>t. ''2024-05-01T10:00:00.000Z''),
      faultAt = (\<lambda>k. None), requests = 0,
      autoIdAt = (\<lambda>k. replicate (Suc k) (CHR ''x'')), idCounter = 0,
      replyService = (\<lambda>r. GenText ''hey''), replyCalls = [],
      authAccounts = [(''alice@patr.app'',
                       \<lparr>uid = ''u1'', email = ''alice@patr.app'', password = ''secret1'',
                        displayName = Some ''Alice'', photoURL = None\<rparr>)],
      usersCol = [(''u1'', alice), (''b1'', geminibot), (''u2'', carol)],
      conversationsCol = [(''c1'', mkDoc alice geminibot None),
                          (''c2'', mkDoc alice carol None),
                          (''c3'', mkDoc alice carol (Some ''a pirate''))],
      messagesCol = (\<lambda>c. []),
      listeners = [], console = [], alerts = []\<rparr>"

definition botChat :: conversation where
  "botChat = toConversation (''c1'', mkDoc alice geminibot None)"

definition plainChat :: conversation where
  "plainChat = toConversation (''c2'', mkDoc alice carol None)"

definition pirateChat :: conversation where
  "pirateChat = toConversation (''c3'', mkDoc alice carol (Some ''a pirate''))"

definition loaded :: "conversation list" where
  "loaded = [botChat, plainChat, pirateChat]"

text \<open>The same world where the second request fails: the summary update of a send.\<close>

definition summaryDown :: world where
  "summaryDown =
     calm\<lparr>faultAt := (\<lambda>k. if k = 1 then Some (''unavailable'', ''offline'') else None)\<rparr>"

text \<open>Every request fails.\<close>

definition offline :: world where
  "offline = calm\<lparr>faultAt := (\<lambda>k. Some (''unavailable'', ''offline''))\<rparr>"

text \<open>The reply service throws on every request.\<close>

definition replyDown :: world where
  "replyDown = calm\<lparr>replyService := (\<lambda>r. GenFail)\<rparr>"

text \<open>The reply service throws on the prompt \<open>hi\<close> only and answers every other request.\<close>

definition replyPicky :: world where
  "replyPicky =
     calm\<lparr>replyService := (\<lambda>r. if prompt r = ''hi'' then GenFail else GenText ''hey'')\<rparr>"

text \<open>The reply service throws, and the third request (storing the reply) fails as well.\<close>

definition replyLost :: world where
  "replyLost =
     replyDown\<lparr>faultAt := (\<lambda>k. if k = 2 then Some (''unavailable'', ''offline'') else None)\<rparr>"

text \<open>A conversation as the sidebar sees it, with a last message at the given time or none.\<close>

definition stamped :: "string \<Rightarrow> int option \<Rightarrow> conversation" where
  "stamped i t =
     \<lparr>id_c = i, participantIds = [], participants = [], messages = None,
      lastMessage = map_option (\<lambda>ts. \<lparr>id_m = None, conversationId = i, senderId = ''u1'',
                                      text_m = ''hi'', timestamp = ts, status = Sent,
                                      isSystem = None\<rparr>) t,
      unreadCount = 0, isTyping = None, themeColor = None, personaPrompt = None,
      type_c = Private\<rparr>"

section \<open>Properties of the built-ins\<close>

lemma includes_iff_sublist: "includes_str s sub \<longleftrightarrow> sublist sub s"
  by (induction s) (auto simp: sublist_Cons_right)

lemma sortInsert_as_insort_key:
  assumes "\<And>a b. cmp a b = key b - key a"
  shows "sortInsert cmp a bs = insort_key (\<lambda>c. - key c) a bs"
  by (induction bs) (simp_all add: assms)

lemma arraySort_as_sort_key:
  assumes "\<And>a b. cmp a b = key b - key a"
  shows "arraySort cmp xs = sort_key (\<lambda>c. - key c) xs"
proof -
  have "sortInsert cmp = insort_key (\<lambda>c. - key c)"
    using sortInsert_as_insort_key [OF assms] by (intro ext)
  then show ?thesis
    by (simp add: arraySort_def sort_key_def)
qed

lemma sortedConversations_as_sort_key:
  "sortedConversations cs = sort_key (\<lambda>c. - lastTimestamp c) cs"
  unfolding sortedConversations_def
  by (rule arraySort_as_sort_key) (simp add: compareConversations_def)

lemma descending_of_negated_keys:
  "sorted (map (\<lambda>c. - key c) xs) \<Longrightarrow> sorted_wrt (\<lambda>s t. t \<le> s) (map (key :: 'a \<Rightarrow> int) xs)"
  by (induction xs) auto

section \<open>Properties of the service layer and of the handler\<close>

lemmas store_defs = Date_now_def request_def autoId_def addDoc_messages_def
  updateDoc_conversations_def console_error_def alert_def

lemma map_of_updateEntry:
  "map_of (updateEntry k f col) k' = (if k' = k then map_option f (map_of col k) else map_of col k')"
  by (induction col) (auto simp: updateEntry_def)

lemma send_alerts [simp]: "alerts (snd (sendMessageToConversation cid m w)) = alerts w"
  by (simp add: sendMessageToConversation_def store_defs split: option.splits prod.splits sum.splits)

lemma send_replyCalls [simp]: "replyCalls (snd (sendMessageToConversation cid m w)) = replyCalls w"
  by (simp add: sendMessageToConversation_def store_defs split: option.splits prod.splits sum.splits)

lemma send_fails_iff:
  "isl (fst (sendMessageToConversation cid m w)) \<longleftrightarrow>
     faultAt w (requests w) \<noteq> None \<or> faultAt w (Suc (requests w)) \<noteq> None
       \<or> map_of (conversationsCol w) cid = None"
  by (auto simp add: sendMessageToConversation_def store_defs split: option.splits prod.splits sum.splits)

lemma send_ok:
  assumes "faultAt w (requests w) = None" "faultAt w (Suc (requests w)) = None"
    "map_of (conversationsCol w) cid = Some d"
  shows "sendMessageToConversation cid m w =
     (Inr (),
      w\<lparr>reads := Suc (Suc (reads w)), requests := Suc (Suc (requests w)),
        idCounter := Suc (idCounter w),
        messagesCol := (messagesCol w)(cid := messagesCol w cid
            @ [(autoIdAt w (idCounter w), m\<lparr>timestamp := clockAt w (reads w)\<rparr>)]),
        conversationsCol := updateEntry cid
            (\<lambda>d. d\<lparr>lastMessage_d := Some m, lastMessageTimestamp := clockAt w (Suc (reads w))\<rparr>)
            (conversationsCol w)\<rparr>)"
  using assms
  by (simp add: sendMessageToConversation_def store_defs split: option.splits prod.splits sum.splits)

lemma send_alerts_eq: "sendMessageToConversation cid m w = (r, w') \<Longrightarrow> alerts w' = alerts w"
  using send_alerts [of cid m w] by simp

lemma generateReply_alerts: "generateReply cid h l p u w = (t, w') \<Longrightarrow> alerts w' = alerts w"
  by (auto simp: generateReply_def Let_def console_error_def split: gen_outcome.splits)

lemma autoReply_alerts: "alerts (autoReply cid me convs txt w) = alerts w"
  by (auto simp: autoReply_def Let_def Date_now_def console_error_def
      split: option.splits prod.splits sum.splits
      dest!: send_alerts_eq generateReply_alerts)

lemma sendUserMessage_alerts: "sendUserMessage cid me txt w = (r, w') \<Longrightarrow> alerts w' = alerts w"
  by (auto simp: sendUserMessage_def Date_now_def Let_def dest!: send_alerts_eq)

lemma sendUserMessage_fails_iff:
  "isl (fst (sendUserMessage cid me txt w)) \<longleftrightarrow>
     faultAt w (requests w) \<noteq> None \<or> faultAt w (Suc (requests w)) \<noteq> None
       \<or> map_of (conversationsCol w) cid = None"
  by (simp add: sendUserMessage_def Date_now_def Let_def send_fails_iff)

lemma sendUserMessage_ok:
  assumes "faultAt w (requests w) = None" "faultAt w (Suc (requests w)) = None"
    "map_of (conversationsCol w) cid = Some d"
  shows "sendUserMessage cid me txt w =
     (Inr (),
      w\<lparr>reads := Suc (Suc (Suc (reads w))), requests := Suc (Suc (requests w)),
        idCounter := Suc (idCounter w),
        messagesCol := (messagesCol w)(cid := messagesCol w cid
            @ [(autoIdAt w (idCounter w),
                \<lparr>id_m = None, conversationId = cid, senderId = id_u me, text_m = txt,
                 timestamp = clockAt w (Suc (reads w)), status = Sent, isSystem = None\<rparr>)]),
        conversationsCol := updateEntry cid
            (\<lambda>d. d\<lparr>lastMessage_d := Some
                 \<lparr>id_m = None, conversationId = cid, senderId = id_u me, text_m = txt,
                  timestamp = clockAt w (reads w), status = Sent, isSystem = None\<rparr>,
               lastMessageTimestamp := clockAt w (Suc (Suc (reads w)))\<rparr>)
            (conversationsCol w)\<rparr>)"
  using assms
  by (simp add: sendUserMessage_def Date_now_def Let_def send_ok [where d = d])

lemma send_replyCalls_eq:
  "sendMessageToConversation cid m w = (r, w') \<Longrightarrow> replyCalls w' = replyCalls w"
  using send_replyCalls [of cid m w] by simp

lemma sendUserMessage_replyCalls:
  "sendUserMessage cid me txt w = (r, w') \<Longrightarrow> replyCalls w' = replyCalls w"
  by (auto simp: sendUserMessage_def Date_now_def Let_def dest!: send_replyCalls_eq)

lemma generateReply_replyCalls:
  "generateReply cid h l p u w = (t, w') \<Longrightarrow>
     replyCalls w' = replyCalls w @ [\<lparr>persona = p, history = formatHistory h u, prompt = l\<rparr>]"
  by (auto simp: generateReply_def Let_def console_error_def split: gen_outcome.splits)

lemma autoReply_replyCalls:
  "replyCalls (autoReply cid me convs txt w) \<noteq> replyCalls w \<longleftrightarrow>
     (\<exists>conv. find (\<lambda>c. id_c c = cid) convs = Some conv
        \<and> isAI conv (find (\<lambda>p. id_u p \<noteq> id_u me) (participants conv)))"
  by (auto simp: autoReply_def Let_def Date_now_def console_error_def
      split: option.splits prod.splits sum.splits
      dest!: send_replyCalls_eq generateReply_replyCalls)

lemma isAI_in_words:
  "isAI conv other \<longleftrightarrow>
     (\<exists>pp. personaPrompt conv = Some pp \<and> pp \<noteq> [])
     \<or> (\<exists>p. other = Some p
           \<and> (sublist ''gemini'' (toLowerCase (username p))
               \<or> sublist ''bot'' (toLowerCase (username p))))"
  by (auto simp: isAI_def includes_iff_sublist split: option.splits)

lemma sendUserMessage_partial:
  assumes "faultAt w (requests w) = None"
    "faultAt w (Suc (requests w)) \<noteq> None \<or> map_of (conversationsCol w) cid = None"
    "sendUserMessage cid me txt w = (r, w')"
  shows "messagesCol w' cid = messagesCol w cid
            @ [(autoIdAt w (idCounter w),
                \<lparr>id_m = None, conversationId = cid, senderId = id_u me, text_m = txt,
                 timestamp = clockAt w (Suc (reads w)), status = Sent, isSystem = None\<rparr>)]"
  using assms
  by (auto simp: sendUserMessage_def sendMessageToConversation_def store_defs Let_def
      split: option.splits)

lemma handleSendMessage_failed:
  assumes "cid \<noteq> []" "sendUserMessage cid me txt w = (Inl e, w2)"
  shows "handleSendMessage (Some cid) (Some me) convs txt w =
           alert ''Failed to send message. You might be offline.''
             (console_error ''Send message error'' w2)"
  using assms by (simp add: handleSendMessage_def)

lemma handleSendMessage_sent:
  assumes "cid \<noteq> []" "sendUserMessage cid me txt w = (Inr u, w2)"
  shows "handleSendMessage (Some cid) (Some me) convs txt w = autoReply cid me convs txt w2"
  using assms by (simp add: handleSendMessage_def)

lemma loaded_find:
  "find (\<lambda>c. id_c c = ''c1'') loaded = Some botChat"
  "find (\<lambda>c. id_c c = ''c2'') loaded = Some plainChat"
  "find (\<lambda>c. id_c c = ''c3'') loaded = Some pirateChat"
  by (simp_all add: loaded_def botChat_def plainChat_def pirateChat_def toConversation_def)

lemmas example_defs = botChat_def plainChat_def pirateChat_def toConversation_def mkDoc_def
  alice_def geminibot_def carol_def mkUser_def

lemmas handler_defs = isAI_def toLowerCase_def lowerChar_def generateReply_def Date_now_def
  console_error_def alert_def sendMessageToConversation_def addDoc_messages_def
  updateDoc_conversations_def request_def autoId_def updateEntry_def defaultPersona_def
  formatHistory_def

lemma handleSendMessage_replyCalls_guard:
  "a = None \<or> a = Some [] \<or> u = None \<Longrightarrow> replyCalls (handleSendMessage a u convs txt w) = replyCalls w"
  by (auto simp: handleSendMessage_def split: option.splits)

lemma send_ok_ex:
  assumes "faultAt w (requests w) = None" "faultAt w (Suc (requests w)) = None"
    "map_of (conversationsCol w) cid \<noteq> None"
  shows "sendMessageToConversation cid m w =
     (Inr (),
      w\<lparr>reads := Suc (Suc (reads w)), requests := Suc (Suc (requests w)),
        idCounter := Suc (idCounter w),
        messagesCol := (messagesCol w)(cid := messagesCol w cid
            @ [(autoIdAt w (idCounter w), m\<lparr>timestamp := clockAt w (reads w)\<rparr>)]),
        conversationsCol := updateEntry cid
            (\<lambda>d. d\<lparr>lastMessage_d := Some m, lastMessageTimestamp := clockAt w (Suc (reads w))\<rparr>)
            (conversationsCol w)\<rparr>)"
  using assms send_ok by blast

lemma createUser_existing_email:
  assumes "em \<in> fst ` set (authAccounts w)"
  shows "createUserWithEmailAndPassword em pw w =
           (Inl (AuthError (if faultAt w (requests w) = None then EmailAlreadyInUse
                            else NetworkRequestFailed)),
            w\<lparr>requests := Suc (requests w)\<rparr>)"
  using assms
  by (cases "faultAt w (requests w)")
     (simp_all add: createUserWithEmailAndPassword_def request_def)

lemma signup_fresh_handle_writes_record:
  "fst (signupWithUsername ''dave'' ''hunter22'' ''Dave'' calm) =
     Inr \<lparr>id_u = ''x'', username = ''dave'', name = ''Dave'',
          avatar = ''https://api.dicebear.com/7.x/avataaars/svg?seed=dave'',
          about = Some ''Hey there! I'm using Patr.'', isOnline = True,
          lastSeen = Some ''2024-05-01T10:00:00.000Z''\<rparr>
   \<and> map fst (usersCol (snd (signupWithUsername ''dave'' ''hunter22'' ''Dave'' calm)))
       = [''u1'', ''b1'', ''u2'', ''x'']"
  by (simp add: signupWithUsername_def createUserWithEmailAndPassword_def updateProfile_def
      setDoc_users_def request_def autoId_def Date_now_def getEmail_def toLowerCase_def
      lowerChar_def FAKE_DOMAIN_def updateEntry_def calm_def Let_def)

section \<open>What the caller is told about a send\<close>

text \<open>
  Claim C5. A send with an open conversation and a signed-in user raises the alert
  \<^verbatim>\<open>Failed to send message\<close> exactly when storing the message fails (the first
  request) or updating the conversation's summary fails (the second request fails,
  or the conversation document does not exist); nothing else makes it alert. When
  the message was stored and the summary update fails, the stored message is still
  in the conversation's message collection afterwards.
\<close>

theorem send_failure_reported_iff_step_fails:
  assumes "cid \<noteq> []"
  shows "alerts (handleSendMessage (Some cid) (Some me) convs txt w) =
           (if faultAt w (requests w) \<noteq> None
               \<or> faultAt w (Suc (requests w)) \<noteq> None
               \<or> map_of (conversationsCol w) cid = None
            then alerts w @ [''Failed to send message. You might be offline.'']
            else alerts w)
         \<and> (faultAt w (requests w) = None
              \<and> (faultAt w (Suc (requests w)) \<noteq> None \<or> map_of (conversationsCol w) cid = None)
            \<longrightarrow> messagesCol (handleSendMessage (Some cid) (Some me) convs txt w) cid =
                  messagesCol w cid
                    @ [(autoIdAt w (idCounter w),
                        \<lparr>id_m = None, conversationId = cid, senderId = id_u me, text_m = txt,
                         timestamp = clockAt w (Suc (reads w)), status = Sent,
                         isSystem = None\<rparr>)])"
proof (cases "sendUserMessage cid me txt w")
  case (Pair r w2)
  have al: "alerts w2 = alerts w"
    using Pair by (rule sendUserMessage_alerts)
  have fl: "isl r \<longleftrightarrow> faultAt w (requests w) \<noteq> None
               \<or> faultAt w (Suc (requests w)) \<noteq> None
               \<or> map_of (conversationsCol w) cid = None"
    using sendUserMessage_fails_iff [of cid me "txt" w] Pair by simp
  show ?thesis
  proof (cases r)
    case (Inl e)
    then have final: "handleSendMessage (Some cid) (Some me) convs txt w =
        alert ''Failed to send message. You might be offline.''
          (console_error ''Send message error'' w2)"
      using assms Pair by (simp add: handleSendMessage_failed)
    have told: "alerts (handleSendMessage (Some cid) (Some me) convs txt w) =
        alerts w @ [''Failed to send message. You might be offline.'']"
      by (simp add: final al alert_def console_error_def)
    have kept: "messagesCol (handleSendMessage (Some cid) (Some me) convs txt w) cid =
        messagesCol w2 cid"
      by (simp add: final alert_def console_error_def)
    from Inl fl told kept sendUserMessage_partial [OF _ _ Pair] show ?thesis
      by auto
  next
    case (Inr u)
    then have final: "handleSendMessage (Some cid) (Some me) convs txt w =
        autoReply cid me convs txt w2"
      using assms Pair by (simp add: handleSendMessage_sent)
    from Inr fl show ?thesis
      by (auto simp add: final autoReply_alerts al)
  qed
qed

theorem send_failure_reported_iff_step_fails_witness:
  "''c2'' \<noteq> []
   \<and> faultAt summaryDown (requests summaryDown) = None
   \<and> faultAt summaryDown (Suc (requests summaryDown)) \<noteq> None
   \<and> alerts (handleSendMessage (Some ''c2'') (Some alice) loaded ''hi'' summaryDown)
        = [''Failed to send message. You might be offline.'']
   \<and> messagesCol (handleSendMessage (Some ''c2'') (Some alice) loaded ''hi'' summaryDown) ''c2''
        = [(''x'', \<lparr>id_m = None, conversationId = ''c2'', senderId = ''u1'', text_m = ''hi'',
                    timestamp = 200, status = Sent, isSystem = None\<rparr>)]"
proof -
  have h: "''c2'' \<noteq> []" by simp
  show ?thesis
    using send_failure_reported_iff_step_fails [OF h, of alice loaded "''hi''" summaryDown]
    by (simp add: summaryDown_def calm_def alice_def mkUser_def)
qed

text \<open>
  Claim C4. When the user's message is stored and the summary updated, the handler
  raises no alert, whatever happens on the auto-reply path afterwards: the reply
  service may throw and any later request may fail.
\<close>

theorem reply_failure_not_reported:
  assumes "cid \<noteq> []"
    and "faultAt w (requests w) = None"
    and "faultAt w (Suc (requests w)) = None"
    and "map_of (conversationsCol w) cid = Some d"
  shows "fst (sendUserMessage cid me txt w) = Inr ()
         \<and> alerts (handleSendMessage (Some cid) (Some me) convs txt w) = alerts w"
proof -
  obtain w2 where sent: "sendUserMessage cid me txt w = (Inr (), w2)"
    using sendUserMessage_ok [OF assms(2,3,4)] by blast
  have "alerts w2 = alerts w"
    using sent by (rule sendUserMessage_alerts)
  moreover have "handleSendMessage (Some cid) (Some me) convs txt w = autoReply cid me convs txt w2"
    using assms(1) sent by (rule handleSendMessage_sent)
  ultimately show ?thesis
    by (simp add: sent autoReply_alerts)
qed

theorem reply_failure_not_reported_witness:
  "''c1'' \<noteq> []
   \<and> faultAt replyLost (requests replyLost) = None
   \<and> faultAt replyLost (Suc (requests replyLost)) = None
   \<and> map_of (conversationsCol replyLost) ''c1'' = Some (mkDoc alice geminibot None)
   \<and> alerts (handleSendMessage (Some ''c1'') (Some alice) loaded ''hi'' replyLost) = []
   \<and> console (handleSendMessage (Some ''c1'') (Some alice) loaded ''hi'' replyLost)
        = [''Gemini API Error:'', ''AI Error'']"
proof -
  have h: "''c1'' \<noteq> []" "faultAt replyLost (requests replyLost) = None"
    "faultAt replyLost (Suc (requests replyLost)) = None"
    "map_of (conversationsCol replyLost) ''c1'' = Some (mkDoc alice geminibot None)"
    by (simp_all add: replyLost_def replyDown_def calm_def)
  have al: "alerts replyLost = []"
    by (simp add: replyLost_def replyDown_def calm_def)
  have con: "console (handleSendMessage (Some ''c1'') (Some alice) loaded ''hi'' replyLost)
        = [''Gemini API Error:'', ''AI Error'']"
    apply (simp add: handleSendMessage_def sendUserMessage_ok [OF h(2,3,4)])
    apply (simp add: autoReply_def loaded_find)
    apply (simp add: example_defs handler_defs replyLost_def replyDown_def calm_def)
    done
  show ?thesis
    using reply_failure_not_reported [OF h, of alice "''hi''" loaded] h al con by simp
qed

section \<open>The stored message and the conversation summary\<close>

text \<open>
  Claim C2, as amended. For every send whose two writes succeed, (a) the message
  collection of the conversation gains one record with the caller's conversation,
  sender and text, status \<open>sent\<close>, and a timestamp that \<^verbatim>\<open>sendMessageToConversation\<close>
  reads from the clock when it writes (the reading after the handler's own); (b) the
  conversation document's \<open>lastMessage\<close> becomes the message as the handler composed
  it, which carries the handler's earlier clock reading, and \<open>lastMessageTimestamp\<close>
  becomes a third reading, taken when the summary is written. The handler then
  goes on to the auto-reply decision.
\<close>

theorem send_persists_and_summarises:
  assumes "cid \<noteq> []"
    and "faultAt w (requests w) = None"
    and "faultAt w (Suc (requests w)) = None"
    and "map_of (conversationsCol w) cid = Some d"
  shows "fst (sendUserMessage cid me txt w) = Inr ()
     \<and> handleSendMessage (Some cid) (Some me) convs txt w =
         autoReply cid me convs txt (snd (sendUserMessage cid me txt w))
     \<and> messagesCol (snd (sendUserMessage cid me txt w)) cid =
         messagesCol w cid
           @ [(autoIdAt w (idCounter w),
               \<lparr>id_m = None, conversationId = cid, senderId = id_u me, text_m = txt,
                timestamp = clockAt w (Suc (reads w)), status = Sent, isSystem = None\<rparr>)]
     \<and> map_of (conversationsCol (snd (sendUserMessage cid me txt w))) cid =
         Some (d\<lparr>lastMessage_d := Some
                    \<lparr>id_m = None, conversationId = cid, senderId = id_u me, text_m = txt,
                     timestamp = clockAt w (reads w), status = Sent, isSystem = None\<rparr>,
                  lastMessageTimestamp := clockAt w (Suc (Suc (reads w)))\<rparr>)"
proof -
  note ok = sendUserMessage_ok [OF assms(2,3,4), of me "txt"]
  have "handleSendMessage (Some cid) (Some me) convs txt w =
         autoReply cid me convs txt (snd (sendUserMessage cid me txt w))"
    using assms(1) ok by (simp add: handleSendMessage_def)
  moreover have "map_of (conversationsCol (snd (sendUserMessage cid me txt w))) cid =
         Some (d\<lparr>lastMessage_d := Some
                    \<lparr>id_m = None, conversationId = cid, senderId = id_u me, text_m = txt,
                     timestamp = clockAt w (reads w), status = Sent, isSystem = None\<rparr>,
                  lastMessageTimestamp := clockAt w (Suc (Suc (reads w)))\<rparr>)"
    by (simp add: ok map_of_updateEntry assms(4))
  ultimately show ?thesis
    by (simp add: ok)
qed

theorem send_persists_and_summarises_witness:
  "''c2'' \<noteq> []
   \<and> map_of (conversationsCol calm) ''c2'' = Some (mkDoc alice carol None)
   \<and> messagesCol (snd (sendUserMessage ''c2'' alice ''hi'' calm)) ''c2'' =
       [(''x'', \<lparr>id_m = None, conversationId = ''c2'', senderId = ''u1'', text_m = ''hi'',
                 timestamp = 200, status = Sent, isSystem = None\<rparr>)]
   \<and> map_of (conversationsCol (snd (sendUserMessage ''c2'' alice ''hi'' calm))) ''c2'' =
       Some ((mkDoc alice carol None)
              \<lparr>lastMessage_d := Some
                  \<lparr>id_m = None, conversationId = ''c2'', senderId = ''u1'', text_m = ''hi'',
                   timestamp = 100, status = Sent, isSystem = None\<rparr>,
               lastMessageTimestamp := 300\<rparr>)"
proof -
  have h: "''c2'' \<noteq> []" "faultAt calm (requests calm) = None"
    "faultAt calm (Suc (requests calm)) = None"
    "map_of (conversationsCol calm) ''c2'' = Some (mkDoc alice carol None)"
    by (simp_all add: calm_def)
  show ?thesis
    using send_persists_and_summarises [OF h, of alice "''hi''" loaded] h(4)
    by (simp add: calm_def alice_def mkUser_def)
qed

text \<open>
  The claim as stated fails: with the client's clock reading 100, 200, 300 and the
  store's time 7, the stored message has timestamp 200, a reading of the client's
  clock, while the summary's last message has timestamp 100, so the summary is not
  the stored record.
\<close>

theorem send_summary_counterexample:
  "map (timestamp \<circ> snd)
      (messagesCol (handleSendMessage (Some ''c2'') (Some alice) [plainChat] ''hi'' calm) ''c2'')
     = [200]
   \<and> map_option timestamp
        (Option.bind
          (map_of (conversationsCol (handleSendMessage (Some ''c2'') (Some alice) [plainChat] ''hi'' calm)) ''c2'')
          lastMessage_d)
     = Some 100
   \<and> map_option lastMessageTimestamp
        (map_of (conversationsCol (handleSendMessage (Some ''c2'') (Some alice) [plainChat] ''hi'' calm)) ''c2'')
     = Some 300
   \<and> serverTime calm = 7"
  by (simp add: handleSendMessage_def sendUserMessage_def autoReply_def
      example_defs handler_defs calm_def)

section \<open>When the auto-reply is requested\<close>

text \<open>
  Claim C3, as amended. \<^verbatim>\<open>generateReply\<close> is called in a send exactly when the send has
  an open conversation and a user, both writes of the user's message succeeded, the
  conversation is in the loaded list, and either its persona prompt is a non-empty
  string or the first participant other than the sender has a handle that,
  lowercased, contains \<open>gemini\<close> or \<open>bot\<close>. In particular it is never called for a
  conversation that satisfies neither condition.
\<close>

theorem reply_invoked_iff:
  "replyCalls (handleSendMessage a u convs txt w) \<noteq> replyCalls w \<longleftrightarrow>
     (\<exists>cid me conv.
        a = Some cid \<and> cid \<noteq> [] \<and> u = Some me
        \<and> faultAt w (requests w) = None
        \<and> faultAt w (Suc (requests w)) = None
        \<and> map_of (conversationsCol w) cid \<noteq> None
        \<and> find (\<lambda>c. id_c c = cid) convs = Some conv
        \<and> ((\<exists>pp. personaPrompt conv = Some pp \<and> pp \<noteq> [])
            \<or> (\<exists>p. find (\<lambda>p. id_u p \<noteq> id_u me) (participants conv) = Some p
                  \<and> (sublist ''gemini'' (toLowerCase (username p))
                      \<or> sublist ''bot'' (toLowerCase (username p))))))"
proof (cases "a = None \<or> a = Some [] \<or> u = None")
  case True
  then show ?thesis
    using handleSendMessage_replyCalls_guard [OF True] by auto
next
  case False
  then obtain cid me where args: "a = Some cid" "cid \<noteq> []" "u = Some me"
    by auto
  obtain r w2 where sent: "sendUserMessage cid me txt w = (r, w2)"
    by (cases "sendUserMessage cid me txt w")
  have same: "replyCalls w2 = replyCalls w"
    using sent by (rule sendUserMessage_replyCalls)
  have fl: "isl r \<longleftrightarrow> faultAt w (requests w) \<noteq> None
               \<or> faultAt w (Suc (requests w)) \<noteq> None
               \<or> map_of (conversationsCol w) cid = None"
    using sendUserMessage_fails_iff [of cid me "txt" w] sent by simp
  show ?thesis
  proof (cases r)
    case (Inl e)
    then have "handleSendMessage a u convs txt w =
        alert ''Failed to send message. You might be offline.''
          (console_error ''Send message error'' w2)"
      using args sent by (simp add: handleSendMessage_failed)
    then have "replyCalls (handleSendMessage a u convs txt w) = replyCalls w"
      by (simp add: alert_def console_error_def same)
    moreover have "isl r" using Inl by simp
    ultimately show ?thesis using fl args by auto
  next
    case (Inr x)
    then have "handleSendMessage a u convs txt w = autoReply cid me convs txt w2"
      using args sent by (simp add: handleSendMessage_sent)
    then have "replyCalls (handleSendMessage a u convs txt w) \<noteq> replyCalls w \<longleftrightarrow>
        (\<exists>conv. find (\<lambda>c. id_c c = cid) convs = Some conv
           \<and> isAI conv (find (\<lambda>p. id_u p \<noteq> id_u me) (participants conv)))"
      using autoReply_replyCalls [of cid me convs "txt" w2] same by simp
    moreover have "\<not> isl r" using Inr by simp
    then have "faultAt w (requests w) = None" "faultAt w (Suc (requests w)) = None"
      "map_of (conversationsCol w) cid \<noteq> None"
      using fl by blast+
    ultimately show ?thesis
      using args by (simp add: isAI_in_words)
  qed
qed

theorem reply_invoked_iff_witness:
  "replyCalls (handleSendMessage (Some ''c1'') (Some alice) loaded ''hi'' calm) \<noteq> replyCalls calm
   \<and> replyCalls (handleSendMessage (Some ''c2'') (Some alice) loaded ''hi'' calm) = replyCalls calm"
proof -
  have bot: "sublist ''bot'' (toLowerCase (username geminibot))"
    by (simp add: includes_iff_sublist [symmetric] example_defs toLowerCase_def lowerChar_def)
  have other: "find (\<lambda>p. id_u p \<noteq> id_u alice) (participants botChat) = Some geminibot"
    by (simp add: example_defs)
  have "\<exists>cid me conv.
        Some ''c1'' = Some cid \<and> cid \<noteq> [] \<and> Some alice = Some me
        \<and> faultAt calm (requests calm) = None
        \<and> faultAt calm (Suc (requests calm)) = None
        \<and> map_of (conversationsCol calm) cid \<noteq> None
        \<and> find (\<lambda>c. id_c c = cid) loaded = Some conv
        \<and> ((\<exists>pp. personaPrompt conv = Some pp \<and> pp \<noteq> [])
            \<or> (\<exists>p. find (\<lambda>p. id_u p \<noteq> id_u me) (participants conv) = Some p
                  \<and> (sublist ''gemini'' (toLowerCase (username p))
                      \<or> sublist ''bot'' (toLowerCase (username p)))))"
    using bot other by (simp add: loaded_find calm_def)
  then have yes: "replyCalls (handleSendMessage (Some ''c1'') (Some alice) loaded ''hi'' calm)
      \<noteq> replyCalls calm"
    using reply_invoked_iff [of "Some ''c1''" "Some alice" loaded "''hi''" calm] by blast
  have nogem: "\<not> sublist ''gemini'' (toLowerCase (username carol))"
    "\<not> sublist ''bot'' (toLowerCase (username carol))"
    by (simp_all add: includes_iff_sublist [symmetric] example_defs toLowerCase_def lowerChar_def)
  have other2: "find (\<lambda>p. id_u p \<noteq> id_u alice) (participants plainChat) = Some carol"
    "personaPrompt plainChat = None"
    by (simp_all add: example_defs)
  have no: "replyCalls (handleSendMessage (Some ''c2'') (Some alice) loaded ''hi'' calm)
      = replyCalls calm"
    using reply_invoked_iff [of "Some ''c2''" "Some alice" loaded "''hi''" calm] nogem other2
    by (auto simp: loaded_find)
  from yes no show ?thesis by blast
qed

text \<open>
  The claim as stated fails for a send that fails: the conversation has a persona
  prompt, every request fails, and the reply service is not called.
\<close>

theorem reply_invoked_counterexample:
  "personaPrompt pirateChat = Some ''a pirate''
   \<and> id_c pirateChat = ''c3''
   \<and> replyCalls (handleSendMessage (Some ''c3'') (Some alice) [pirateChat] ''ahoy'' offline)
       = replyCalls offline"
  by (simp add: handleSendMessage_def sendUserMessage_def
      example_defs handler_defs offline_def calm_def)

section \<open>A failing reply service\<close>

text \<open>
  Claim C1, as amended. For every send into an AI-driven conversation whose writes
  succeed, if the generated-reply request of this send fails (the reply service
  throws on the one request \<^verbatim>\<open>generateReply\<close> makes, whatever it would do with any
  other), \<^verbatim>\<open>generateReply\<close> logs the error and returns a fixed apology, and the
  handler stores that apology as the reply: the conversation then holds the user's
  message followed by a message from the other participant with the apology as text
  and status \<open>delivered\<close>. The service was asked once, one line is logged and no alert
  is raised.
\<close>

theorem failed_generation_sends_apology:
  assumes "cid \<noteq> []"
    and "faultAt w (requests w) = None"
    and "faultAt w (Suc (requests w)) = None"
    and "faultAt w (Suc (Suc (requests w))) = None"
    and "faultAt w (Suc (Suc (Suc (requests w)))) = None"
    and "map_of (conversationsCol w) cid = Some d"
    and "find (\<lambda>c. id_c c = cid) convs = Some conv"
    and "isAI conv (find (\<lambda>p. id_u p \<noteq> id_u me) (participants conv))"
    and "replyService w
           \<lparr>persona = (case personaPrompt conv of
                         Some pp \<Rightarrow>
                           if pp \<noteq> [] then pp
                           else defaultPersona (find (\<lambda>p. id_u p \<noteq> id_u me) (participants conv))
                       | None \<Rightarrow>
                           defaultPersona (find (\<lambda>p. id_u p \<noteq> id_u me) (participants conv))),
            history = [], prompt = txt\<rparr> = GenFail"
  shows "messagesCol (handleSendMessage (Some cid) (Some me) convs txt w) cid =
           messagesCol w cid
             @ [(autoIdAt w (idCounter w),
                 \<lparr>id_m = None, conversationId = cid, senderId = id_u me, text_m = txt,
                  timestamp = clockAt w (Suc (reads w)), status = Sent, isSystem = None\<rparr>),
                (autoIdAt w (Suc (idCounter w)),
                 \<lparr>id_m = None, conversationId = cid,
                  senderId = (case find (\<lambda>p. id_u p \<noteq> id_u me) (participants conv) of
                                Some p \<Rightarrow> if id_u p \<noteq> [] then id_u p else ''bot''
                              | None \<Rightarrow> ''bot''),
                  text_m = ''Sorry, I can't reply right now. (Network Error)'',
                  timestamp = clockAt w (Suc (Suc (Suc (Suc (reads w))))),
                  status = Delivered, isSystem = None\<rparr>)]
         \<and> replyCalls (handleSendMessage (Some cid) (Some me) convs txt w) =
             replyCalls w
               @ [\<lparr>persona = (case personaPrompt conv of
                                 Some pp \<Rightarrow>
                                   if pp \<noteq> [] then pp
                                   else defaultPersona
                                          (find (\<lambda>p. id_u p \<noteq> id_u me) (participants conv))
                               | None \<Rightarrow>
                                   defaultPersona
                                     (find (\<lambda>p. id_u p \<noteq> id_u me) (participants conv))),
                    history = [], prompt = txt\<rparr>]
         \<and> console (handleSendMessage (Some cid) (Some me) convs txt w) =
             console w @ [''Gemini API Error:'']
         \<and> alerts (handleSendMessage (Some cid) (Some me) convs txt w) = alerts w"
proof -
  let ?w2 = "snd (sendUserMessage cid me txt w)"
  have sent: "sendUserMessage cid me txt w = (Inr (), ?w2)"
    using sendUserMessage_ok [OF assms(2,3,6)] by simp
  have final: "handleSendMessage (Some cid) (Some me) convs txt w = autoReply cid me convs txt ?w2"
    using assms(1) sent by (rule handleSendMessage_sent)
  have w2: "?w2 = w\<lparr>reads := Suc (Suc (Suc (reads w))), requests := Suc (Suc (requests w)),
        idCounter := Suc (idCounter w),
        messagesCol := (messagesCol w)(cid := messagesCol w cid
            @ [(autoIdAt w (idCounter w),
                \<lparr>id_m = None, conversationId = cid, senderId = id_u me, text_m = txt,
                 timestamp = clockAt w (Suc (reads w)), status = Sent, isSystem = None\<rparr>)]),
        conversationsCol := updateEntry cid
            (\<lambda>d. d\<lparr>lastMessage_d := Some
                 \<lparr>id_m = None, conversationId = cid, senderId = id_u me, text_m = txt,
                  timestamp = clockAt w (reads w), status = Sent, isSystem = None\<rparr>,
               lastMessageTimestamp := clockAt w (Suc (Suc (reads w)))\<rparr>)
            (conversationsCol w)\<rparr>"
    using sendUserMessage_ok [OF assms(2,3,6), of me "txt"] by simp
  show ?thesis
    unfolding final
    by (simp add: autoReply_def assms generateReply_def formatHistory_def w2 Date_now_def
        console_error_def Let_def send_ok_ex map_of_updateEntry)
qed

theorem failed_generation_sends_apology_witness:
  "''c1'' \<noteq> []
   \<and> isAI botChat (find (\<lambda>p. id_u p \<noteq> id_u alice) (participants botChat))
   \<and> replyService replyPicky
        \<lparr>persona = ''You are Gem, a cool person on this chat app.'', history = [],
         prompt = ''hi''\<rparr> = GenFail
   \<and> replyService replyPicky
        \<lparr>persona = ''You are Gem, a cool person on this chat app.'', history = [],
         prompt = ''yo''\<rparr> = GenText ''hey''
   \<and> messagesCol (handleSendMessage (Some ''c1'') (Some alice) loaded ''hi'' replyPicky) ''c1'' =
       [(''x'', \<lparr>id_m = None, conversationId = ''c1'', senderId = ''u1'', text_m = ''hi'',
                 timestamp = 200, status = Sent, isSystem = None\<rparr>),
        (''xx'', \<lparr>id_m = None, conversationId = ''c1'', senderId = ''b1'',
                  text_m = ''Sorry, I can't reply right now. (Network Error)'',
                  timestamp = 500, status = Delivered, isSystem = None\<rparr>)]
   \<and> replyCalls (handleSendMessage (Some ''c1'') (Some alice) loaded ''hi'' replyPicky) =
       [\<lparr>persona = ''You are Gem, a cool person on this chat app.'', history = [],
         prompt = ''hi''\<rparr>]
   \<and> console (handleSendMessage (Some ''c1'') (Some alice) loaded ''hi'' replyPicky) =
       [''Gemini API Error:'']
   \<and> alerts (handleSendMessage (Some ''c1'') (Some alice) loaded ''hi'' replyPicky) = []"
proof -
  have h1: "''c1'' \<noteq> []" by simp
  have h2: "faultAt replyPicky (requests replyPicky) = None"
    "faultAt replyPicky (Suc (requests replyPicky)) = None"
    "faultAt replyPicky (Suc (Suc (requests replyPicky))) = None"
    "faultAt replyPicky (Suc (Suc (Suc (requests replyPicky)))) = None"
    by (simp_all add: replyPicky_def calm_def)
  have h3: "map_of (conversationsCol replyPicky) ''c1'' = Some (mkDoc alice geminibot None)"
    by (simp add: replyPicky_def calm_def)
  have h4: "find (\<lambda>c. id_c c = ''c1'') loaded = Some botChat"
    by (rule loaded_find)
  have h5: "isAI botChat (find (\<lambda>p. id_u p \<noteq> id_u alice) (participants botChat))"
    by (simp add: example_defs isAI_def toLowerCase_def lowerChar_def)
  have h6: "replyService replyPicky
           \<lparr>persona = (case personaPrompt botChat of
                         Some pp \<Rightarrow>
                           if pp \<noteq> [] then pp
                           else defaultPersona (find (\<lambda>p. id_u p \<noteq> id_u alice) (participants botChat))
                       | None \<Rightarrow>
                           defaultPersona (find (\<lambda>p. id_u p \<noteq> id_u alice) (participants botChat))),
            history = [], prompt = ''hi''\<rparr> = GenFail"
    by (simp add: replyPicky_def)
  have other: "replyService replyPicky
        \<lparr>persona = ''You are Gem, a cool person on this chat app.'', history = [],
         prompt = ''yo''\<rparr> = GenText ''hey''"
    by (simp add: replyPicky_def)
  show ?thesis
    using failed_generation_sends_apology [OF h1 h2 h3 h4 h5 h6] h5 h6 other
    by (simp add: replyPicky_def calm_def example_defs defaultPersona_def)
qed

text \<open>
  The claim as stated fails: the conversation is empty, the reply service throws, and
  after the send the conversation holds two messages, the second one the apology.
\<close>

theorem failed_generation_counterexample:
  "replyService replyDown
      \<lparr>persona = ''a pirate'', history = [], prompt = ''ahoy''\<rparr> = GenFail
   \<and> messagesCol replyDown ''c3'' = []
   \<and> map (text_m \<circ> snd)
        (messagesCol (handleSendMessage (Some ''c3'') (Some alice) [pirateChat] ''ahoy'' replyDown) ''c3'')
       = [''ahoy'', ''Sorry, I can't reply right now. (Network Error)'']
   \<and> replyCalls (handleSendMessage (Some ''c3'') (Some alice) [pirateChat] ''ahoy'' replyDown)
       = [\<lparr>persona = ''a pirate'', history = [], prompt = ''ahoy''\<rparr>]"
  by (simp add: handleSendMessage_def sendUserMessage_def autoReply_def
      example_defs handler_defs replyDown_def calm_def)

section \<open>Subscriptions that fail\<close>


section \<open>Creating a conversation\<close>

text \<open>
  Claim C7. When the store accepts the write, \<^verbatim>\<open>createNewConversation a b\<close> appends one
  document to the conversations collection, whatever the collection already holds
  (no lookup of an existing conversation of the pair is made), and returns its id.
  The document has the participant ids of \<open>a\<close> and \<open>b\<close> and no others, embeds both user
  records, has type private and no last message.
\<close>

theorem createNewConversation_creates_private_pair:
  assumes "faultAt w (requests w) = None"
  shows "createNewConversation a b w =
           (Inr (autoIdAt w (idCounter w)),
            w\<lparr>reads := Suc (reads w), requests := Suc (requests w),
              idCounter := Suc (idCounter w),
              conversationsCol := conversationsCol w
                @ [(autoIdAt w (idCounter w),
                    \<lparr>participantIds_d = [id_u a, id_u b], participants_d = [a, b],
                     type_d = Some Private, createdAt = serverTime w,
                     lastMessageTimestamp = clockAt w (reads w),
                     lastMessage_d = None, personaPrompt_d = None\<rparr>)]\<rparr>)
     \<and> set (participantIds
              (toConversation (last (conversationsCol (snd (createNewConversation a b w))))))
           = {id_u a, id_u b}
     \<and> participants
           (toConversation (last (conversationsCol (snd (createNewConversation a b w))))) = [a, b]
     \<and> type_c (toConversation (last (conversationsCol (snd (createNewConversation a b w)))))
           = Private
     \<and> lastMessage (toConversation (last (conversationsCol (snd (createNewConversation a b w)))))
           = None"
  using assms
  by (simp add: createNewConversation_def addDoc_conversations_def Date_now_def request_def
      autoId_def toConversation_def insert_commute)

theorem createNewConversation_creates_private_pair_witness:
  "faultAt calm (requests calm) = None
   \<and> map (participantIds_d \<circ> snd) (conversationsCol calm) =
       [[''u1'', ''b1''], [''u1'', ''u2''], [''u1'', ''u2'']]
   \<and> fst (createNewConversation alice carol calm) = Inr ''x''
   \<and> map (participantIds_d \<circ> snd) (conversationsCol (snd (createNewConversation alice carol calm))) =
       [[''u1'', ''b1''], [''u1'', ''u2''], [''u1'', ''u2''], [''u1'', ''u2'']]"
proof -
  have h: "faultAt calm (requests calm) = None"
    by (simp add: calm_def)
  show ?thesis
    using createNewConversation_creates_private_pair [OF h, of alice carol]
    by (simp add: calm_def example_defs)
qed

section \<open>Registration with a handle that is taken\<close>

text \<open>
  Claim C8. When the handle, lowercased and completed to an e-mail address, already
  has an account, \<^verbatim>\<open>signupWithUsername\<close> fails with an error of the credential store and
  writes no user document; the accounts are unchanged as well.
\<close>

theorem signup_existing_handle_fails:
  assumes "getEmail un \<in> fst ` set (authAccounts w)"
  shows "fst (signupWithUsername un pw nm w) =
           Inl (AuthError (if faultAt w (requests w) = None then EmailAlreadyInUse
                           else NetworkRequestFailed))
     \<and> usersCol (snd (signupWithUsername un pw nm w)) = usersCol w
     \<and> authAccounts (snd (signupWithUsername un pw nm w)) = authAccounts w"
  using createUser_existing_email [OF assms, of pw]
  by (simp add: signupWithUsername_def Let_def)

theorem signup_existing_handle_fails_witness:
  "getEmail ''Alice'' = ''alice@patr.app''
   \<and> getEmail ''Alice'' \<in> fst ` set (authAccounts calm)
   \<and> fst (signupWithUsername ''Alice'' ''hunter22'' ''Alice B'' calm) = Inl (AuthError EmailAlreadyInUse)
   \<and> usersCol (snd (signupWithUsername ''Alice'' ''hunter22'' ''Alice B'' calm)) = usersCol calm"
proof -
  have e: "getEmail ''Alice'' = ''alice@patr.app''"
    by (simp add: getEmail_def toLowerCase_def lowerChar_def FAKE_DOMAIN_def)
  have h: "getEmail ''Alice'' \<in> fst ` set (authAccounts calm)"
    by (simp add: e calm_def)
  have f: "faultAt calm (requests calm) = None"
    by (simp add: calm_def)
  show ?thesis
    using signup_existing_handle_fails [OF h, of "''hunter22''" "''Alice B''"] e h f
    by simp
qed

section \<open>Listing users\<close>

text \<open>
  Claim C10. \<^verbatim>\<open>getAllUsers\<close> returns at most 50 users; when the query fails it logs the
  error and returns the empty list, and it never raises.
\<close>

theorem getAllUsers_at_most_50_or_empty:
  "length (fst (getAllUsers w)) \<le> 50
   \<and> (faultAt w (requests w) \<noteq> None \<longrightarrow>
        fst (getAllUsers w) = []
        \<and> console (snd (getAllUsers w)) = console w @ [''Error fetching users:''])
   \<and> (faultAt w (requests w) = None \<longrightarrow>
        fst (getAllUsers w) = map mapUser (take 50 (usersCol w)))"
  by (auto simp: getAllUsers_def getDocs_users_def request_def console_error_def
      split: option.splits)

theorem getAllUsers_at_most_50_or_empty_witness:
  "faultAt offline (requests offline) \<noteq> None
   \<and> fst (getAllUsers offline) = []
   \<and> console (snd (getAllUsers offline)) = [''Error fetching users:'']
   \<and> faultAt calm (requests calm) = None
   \<and> fst (getAllUsers calm) = [alice, geminibot, carol]"
proof -
  have h: "faultAt offline (requests offline) \<noteq> None" "faultAt calm (requests calm) = None"
    by (simp_all add: offline_def calm_def)
  show ?thesis
    using getAllUsers_at_most_50_or_empty [of offline] getAllUsers_at_most_50_or_empty [of calm] h
    by (simp add: offline_def calm_def mapUser_def)
qed

section \<open>The displayed conversation list\<close>

text \<open>
  Claim C9. The list the sidebar displays is a rearrangement of the list it is given
  (nothing added, dropped or duplicated), in descending order of
  \<open>lastMessage.timestamp\<close>, where a conversation without a last message counts as
  timestamp 0; conversations with the same key stand in the order they had in the
  input. Where no timestamp is negative, as for readings of \<^verbatim>\<open>Date.now()\<close>, a
  conversation without a last message has the least key of all: it is the oldest.
\<close>

theorem sidebar_sorted_descending_stable:
  "mset (sortedConversations cs) = mset cs
   \<and> sorted_wrt (\<lambda>s t. t \<le> s) (map lastTimestamp (sortedConversations cs))
   \<and> filter (\<lambda>c. lastTimestamp c = k) (sortedConversations cs)
       = filter (\<lambda>c. lastTimestamp c = k) cs
   \<and> (lastMessage c = None \<longrightarrow> lastTimestamp c = 0)
   \<and> (lastMessage c = None \<and> (\<forall>d \<in> set cs. 0 \<le> lastTimestamp d) \<longrightarrow>
        (\<forall>d \<in> set cs. lastTimestamp c \<le> lastTimestamp d))"
proof -
  have perm: "mset (sortedConversations cs) = mset cs"
    by (simp add: sortedConversations_as_sort_key)
  have "sorted (map (\<lambda>c. - lastTimestamp c) (sortedConversations cs))"
    by (simp add: sortedConversations_as_sort_key)
  then have desc: "sorted_wrt (\<lambda>s t. t \<le> s) (map lastTimestamp (sortedConversations cs))"
    by (rule descending_of_negated_keys)
  have "filter (\<lambda>c. - lastTimestamp c = - k) (sortedConversations cs)
          = filter (\<lambda>c. - lastTimestamp c = - k) cs"
    unfolding sortedConversations_as_sort_key by (rule sort_key_stable)
  then have stable: "filter (\<lambda>c. lastTimestamp c = k) (sortedConversations cs)
          = filter (\<lambda>c. lastTimestamp c = k) cs"
    by simp
  have missing: "lastMessage c = None \<longrightarrow> lastTimestamp c = 0"
    by (simp add: lastTimestamp_def)
  have oldest: "lastMessage c = None \<and> (\<forall>d \<in> set cs. 0 \<le> lastTimestamp d) \<longrightarrow>
        (\<forall>d \<in> set cs. lastTimestamp c \<le> lastTimestamp d)"
    by (simp add: lastTimestamp_def)
  from perm desc stable missing oldest show ?thesis by blast
qed

theorem sidebar_sorted_descending_stable_witness:
  "lastMessage (stamped ''a'' None) = None
   \<and> lastTimestamp (stamped ''a'' None) = 0
   \<and> sortedConversations
         [stamped ''a'' None, stamped ''b'' (Some 5), stamped ''c'' (Some 9), stamped ''d'' (Some 5)]
       = [stamped ''c'' (Some 9), stamped ''b'' (Some 5), stamped ''d'' (Some 5), stamped ''a'' None]
   \<and> filter (\<lambda>c. lastTimestamp c = 5)
         (sortedConversations
           [stamped ''a'' None, stamped ''b'' (Some 5), stamped ''c'' (Some 9), stamped ''d'' (Some 5)])
       = [stamped ''b'' (Some 5), stamped ''d'' (Some 5)]
   \<and> lastTimestamp (stamped ''a'' None) \<le> lastTimestamp (stamped ''b'' (Some 5))
   \<and> lastTimestamp (stamped ''a'' None) \<le> lastTimestamp (stamped ''c'' (Some 9))"
proof -
  have h: "lastMessage (stamped ''a'' None) = None"
    by (simp add: stamped_def)
  have ev: "sortedConversations
         [stamped ''a'' None, stamped ''b'' (Some 5), stamped ''c'' (Some 9), stamped ''d'' (Some 5)]
       = [stamped ''c'' (Some 9), stamped ''b'' (Some 5), stamped ''d'' (Some 5), stamped ''a'' None]"
    by (simp add: sortedConversations_def arraySort_def compareConversations_def
        lastTimestamp_def stamped_def)
  have keys: "lastTimestamp (stamped ''b'' (Some 5)) = 5" "lastTimestamp (stamped ''d'' (Some 5)) = 5"
    "lastTimestamp (stamped ''c'' (Some 9)) = 9"
    by (simp_all add: lastTimestamp_def stamped_def)
  show ?thesis
    using sidebar_sorted_descending_stable
      [of "[stamped ''a'' None, stamped ''b'' (Some 5), stamped ''c'' (Some 9), stamped ''d'' (Some 5)]"
          5 "stamped ''a'' None"]
      h ev keys
    by (simp add: lastTimestamp_def stamped_def)
qed

end
